theory Spec2Isabelle
  imports Complex_Main "HOL-Library.Word"
begin

section \<open>The upload, analysis and export workflow of \<open>src/pages/Index.tsx\<close>\<close>

text \<open>
  The page component \<open>Index\<close> keeps nine pieces of React state and offers a handful of
  event handlers. Each handler is embedded as a function from the state captured by the
  render that created it to the list of effects the handler performs, in program order:
  calls of the state setters, \<open>alert\<close>, the simulated latency, and the file download.
  Applying those effects to a state, one after the other, gives the state after the
  handler.
\<close>

subsection \<open>Strings\<close>

text \<open>
  A JavaScript string is a sequence of UTF-16 code units. The literals of the source
  that are not ASCII (the Russian messages and templates) are written out as their code
  units; ASCII literals are converted from HOL strings by \<open>js\<close>.
\<close>

type_synonym code_unit = "16 word"
type_synonym jsstring = "code_unit list"

definition js :: "string \<Rightarrow> jsstring" where
  "js s = map of_char s"

text \<open>
  \<open>String.prototype.trim\<close> strips the code points of the ECMAScript productions
  WhiteSpace and LineTerminator from both ends; all of them are single code units.
\<close>

definition is_white_space :: "code_unit \<Rightarrow> bool" where
  "is_white_space c =
     (c \<in> set [0x9, 0xA, 0xB, 0xC, 0xD, 0x20, 0xA0, 0x1680, 0x2028, 0x2029, 0x202F, 0x205F,
               0x3000, 0xFEFF]
      \<or> (0x2000 \<le> c \<and> c \<le> 0x200A))"

definition trim :: "jsstring \<Rightarrow> jsstring" where
  "trim s = rev (dropWhile is_white_space (rev (dropWhile is_white_space s)))"

definition startsWith :: "jsstring \<Rightarrow> jsstring \<Rightarrow> bool" where
  "startsWith s p = (take (length p) s = p)"

text \<open>\<open>Array.prototype.join\<close> on an array of strings.\<close>

fun join :: "jsstring \<Rightarrow> jsstring list \<Rightarrow> jsstring" where
  "join sep [] = []"
| "join sep [x] = x"
| "join sep (x # y # ys) = x @ sep @ join sep (y # ys)"

subsection \<open>Numbers: \<open>toFixed\<close>\<close>

text \<open>
  The only number that is turned into text is \<open>file.size / 1024 / 1024\<close>. A file size is
  a non-negative integer; below \<open>2 ^ 53\<close> it is represented exactly as a Number, and
  dividing a Number by 1024 only lowers its exponent. The quotient is therefore the exact
  rational, and the Number is modelled by \<open>rat\<close>. \<open>Number.prototype.toFixed\<close> works on
  the mathematical value: it picks the integer \<open>n\<close> with \<open>n / 10 ^ f\<close> nearest to \<open>x\<close>,
  the larger one on a tie, and prints its decimal digits with a point before the last
  \<open>f\<close> of them, padding with zeros on the left to \<open>f + 1\<close> digits. (Its branch for
  \<open>x \<ge> 10 ^ 21\<close> is out of reach of sizes below \<open>2 ^ 53\<close> and is left out.)
\<close>

definition digit :: "nat \<Rightarrow> code_unit" where
  "digit d = of_nat (48 + d)"

function decimal :: "nat \<Rightarrow> jsstring" where
  "decimal n = (if n < 10 then [digit n] else decimal (n div 10) @ [digit (n mod 10)])"
  by pat_completeness auto
termination
  by (relation "measure (\<lambda>n. n)") auto

declare decimal.simps [simp del]

definition toFixed :: "rat \<Rightarrow> nat \<Rightarrow> jsstring" where
  "toFixed x f =
     (let s = (if x < 0 then js ''-'' else []);
          n = nat \<lfloor>\<bar>x\<bar> * 10 ^ f + 1 / 2\<rfloor>;
          m = (if n = 0 then js ''0'' else decimal n);
          k = length m;
          m' = (if k \<le> f then replicate (f + 1 - k) (digit 0) @ m else m);
          k' = (if k \<le> f then f + 1 else k)
      in s @ (if f \<noteq> 0 then take (k' - f) m' @ js ''.'' @ drop (k' - f) m' else m))"

subsection \<open>Data model\<close>

text \<open>The browser's \<open>File\<close>, as far as the page reads it: name, byte size, MIME type.\<close>

record File =
  file_name :: jsstring
  file_size :: nat
  file_type :: jsstring

record ImageFile =
  image_id :: jsstring
  image_file :: File
  name :: jsstring
  image_size :: jsstring
  preview :: "jsstring option"

datatype status = Pending | Processing | Completed | Error

record AnalysisResult =
  filename :: jsstring
  title :: jsstring
  description :: "jsstring option"
  result_keywords :: jsstring
  status :: status

text \<open>
  The values passed to \<open>setProgress\<close> are Numbers. \<open>Integer k\<close> is the integer \<open>k\<close>
  (only 0 and 100 occur). \<open>Percentage i n\<close> is the double that \<open>(i / n) * 100\<close>
  evaluates to, with the rounding of the quotient and of the product in binary floating
  point; it is kept as the pair of its operands and is not the exact rational. No
  property below depends on a progress value.
\<close>

datatype number = Integer nat | Percentage nat nat

text \<open>The component state: one field per \<open>useState\<close>, with the initial values of the source.\<close>

record state =
  apiKey :: jsstring
  model :: jsstring
  images :: "ImageFile list"
  useFilename :: bool
  includeDescription :: bool
  results :: "AnalysisResult list"
  isProcessing :: bool
  progress :: number
  googleSheetsUrl :: jsstring

definition initial_state :: state where
  "initial_state =
     \<lparr>apiKey = [], model = js ''gpt-4o-mini'', images = [], useFilename = False,
      includeDescription = False, results = [], isProcessing = False,
      progress = Integer 0,
      googleSheetsUrl = []\<rparr>"

subsection \<open>Effects\<close>

text \<open>
  \<open>setImages\<close> is called both with a value and with an updater function; the other
  setters only with values. \<open>Sleep\<close> is the awaited \<open>setTimeout\<close>; \<open>Download\<close> stands for
  lines 121 to 127: a \<open>Blob\<close> of the given text and type, offered through an anchor whose
  \<open>download\<close> attribute is the given name.
\<close>

datatype effect =
    Alert jsstring
  | SetApiKey jsstring
  | SetIncludeDescription bool
  | SetImages "ImageFile list"
  | UpdateImages "ImageFile list \<Rightarrow> ImageFile list"
  | SetResults "AnalysisResult list"
  | SetIsProcessing bool
  | SetProgress number
  | Sleep nat
  | Download (download_name: jsstring) (blob_type: jsstring) (blob_text: jsstring)

fun apply_effect :: "effect \<Rightarrow> state \<Rightarrow> state" where
  "apply_effect (Alert msg) s = s"
| "apply_effect (SetApiKey k) s = s\<lparr>apiKey := k\<rparr>"
| "apply_effect (SetIncludeDescription b) s = s\<lparr>includeDescription := b\<rparr>"
| "apply_effect (SetImages xs) s = s\<lparr>images := xs\<rparr>"
| "apply_effect (UpdateImages f) s = s\<lparr>images := f (images s)\<rparr>"
| "apply_effect (SetResults rs) s = s\<lparr>results := rs\<rparr>"
| "apply_effect (SetIsProcessing b) s = s\<lparr>isProcessing := b\<rparr>"
| "apply_effect (SetProgress p) s = s\<lparr>progress := p\<rparr>"
| "apply_effect (Sleep ms) s = s"
| "apply_effect (Download n t c) s = s"

definition run :: "effect list \<Rightarrow> state \<Rightarrow> state" where
  "run effs s = fold apply_effect effs s"

fun sets_isProcessing :: "effect \<Rightarrow> bool" where
  "sets_isProcessing (SetIsProcessing b) = True"
| "sets_isProcessing e = False"

subsection \<open>File intake: \<open>onDrop\<close>\<close>

text \<open>
  \<open>Math.random\<close> and \<open>URL.createObjectURL\<close> are not functions of their arguments. The
  browser is a parameter: it supplies the identifier and the object URL of the file at
  each position of the batch.
\<close>

record browser =
  random_id :: "nat \<Rightarrow> jsstring"
  createObjectURL :: "nat \<Rightarrow> jsstring"

definition new_image :: "browser \<Rightarrow> nat \<Rightarrow> File \<Rightarrow> ImageFile" where
  "new_image env k f =
     \<lparr>image_id = random_id env k,
      image_file = f,
      name = file_name f,
      image_size = toFixed (of_nat (file_size f) / 1024 / 1024) 2 @ js '' MB'',
      preview = (if startsWith (file_type f) (js ''image/'')
                 then Some (createObjectURL env k) else None)\<rparr>"

definition newImages :: "browser \<Rightarrow> File list \<Rightarrow> ImageFile list" where
  "newImages env acceptedFiles =
     map (\<lambda>(k, f). new_image env k f) (enumerate 0 acceptedFiles)"

definition onDrop :: "browser \<Rightarrow> File list \<Rightarrow> effect list" where
  "onDrop env acceptedFiles = [UpdateImages (\<lambda>prev. prev @ newImages env acceptedFiles)]"

definition clearImages :: "effect list" where
  "clearImages = [SetImages [], SetResults []]"

subsection \<open>The analysis workflow: \<open>analyzeImages\<close>\<close>

definition missing_key_alert :: jsstring where
  "missing_key_alert =
     [0x41F, 0x43E, 0x436, 0x430, 0x43B, 0x443, 0x439, 0x441, 0x442, 0x430, 0x2C, 0x20,
      0x432, 0x432, 0x435, 0x434, 0x438, 0x442, 0x435, 0x20, 0x41, 0x50, 0x49, 0x20,
      0x43A, 0x43B, 0x44E, 0x447]"

definition no_images_alert :: jsstring where
  "no_images_alert =
     [0x41F, 0x43E, 0x436, 0x430, 0x43B, 0x443, 0x439, 0x441, 0x442, 0x430, 0x2C, 0x20,
      0x437, 0x430, 0x433, 0x440, 0x443, 0x437, 0x438, 0x442, 0x435, 0x20, 0x438, 0x437,
      0x43E, 0x431, 0x440, 0x430, 0x436, 0x435, 0x43D, 0x438, 0x44F]"

definition title_prefix :: jsstring where
  "title_prefix =
     [0x53, 0x45, 0x4F, 0x20, 0x437, 0x430, 0x433, 0x43E, 0x43B, 0x43E, 0x432, 0x43E, 0x43A,
      0x20, 0x434, 0x43B, 0x44F, 0x20]"

definition description_prefix :: jsstring where
  "description_prefix =
     [0x414, 0x435, 0x442, 0x430, 0x43B, 0x44C, 0x43D, 0x43E, 0x435, 0x20, 0x43E, 0x43F,
      0x438, 0x441, 0x430, 0x43D, 0x438, 0x435, 0x20, 0x438, 0x437, 0x43E, 0x431, 0x440,
      0x430, 0x436, 0x435, 0x43D, 0x438, 0x44F, 0x20]"

definition keywords_text :: jsstring where
  "keywords_text =
     [0x43A, 0x43B, 0x44E, 0x447, 0x435, 0x432, 0x43E, 0x435, 0x20, 0x441, 0x43B, 0x43E,
      0x432, 0x43E, 0x31, 0x2C, 0x20, 0x43A, 0x43B, 0x44E, 0x447, 0x435, 0x432, 0x43E,
      0x435, 0x20, 0x441, 0x43B, 0x43E, 0x432, 0x43E, 0x32, 0x2C, 0x20, 0x43A, 0x43B,
      0x44E, 0x447, 0x435, 0x432, 0x43E, 0x435, 0x20, 0x441, 0x43B, 0x43E, 0x432, 0x43E,
      0x33]"

definition result :: "bool \<Rightarrow> ImageFile \<Rightarrow> AnalysisResult" where
  "result incl img =
     \<lparr>filename = name img,
      title = title_prefix @ name img,
      description = (if incl then Some (description_prefix @ name img) else None),
      result_keywords = keywords_text,
      status = Completed\<rparr>"

text \<open>
  The \<open>for\<close> loop of lines 81 to 97, from index \<open>i\<close> on. It carries the effects
  performed so far and the local array \<open>newResults\<close>. \<open>imgs\<close> and \<open>incl\<close> are the
  \<open>images\<close> and \<open>includeDescription\<close> of the render whose handler is running: the
  closure reads them, not the state at the time of each step.
\<close>

function analyze_loop ::
  "ImageFile list \<Rightarrow> bool \<Rightarrow> nat \<Rightarrow> effect list \<times> AnalysisResult list
     \<Rightarrow> effect list \<times> AnalysisResult list" where
  "analyze_loop imgs incl i (effs, newResults) =
     (if i < length imgs then
        analyze_loop imgs incl (i + 1)
          (effs @ [SetProgress (Percentage i (length imgs)), Sleep 2000],
           newResults @ [result incl (imgs ! i)])
      else (effs, newResults))"
  by pat_completeness auto
termination
  by (relation "measure (\<lambda>(imgs, incl, i, acc). length imgs - i)") auto

declare analyze_loop.simps [simp del]

definition analyzeImages :: "state \<Rightarrow> effect list" where
  "analyzeImages s =
     (if trim (apiKey s) = [] then [Alert missing_key_alert]
      else if length (images s) = 0 then [Alert no_images_alert]
      else
        (let (effs, newResults) =
               analyze_loop (images s) (includeDescription s) 0
                 ([SetIsProcessing True, SetProgress (Integer 0)], [])
         in effs
            @ [SetResults newResults, SetProgress (Integer 100), SetIsProcessing False]))"

subsection \<open>CSV export: \<open>exportToCSV\<close>\<close>

definition headers :: "bool \<Rightarrow> jsstring list" where
  "headers incl =
     (if incl then [js ''filename'', js ''title'', js ''descriptors'', js ''keywords'']
      else [js ''filename'', js ''title'', js ''keywords''])"

text \<open>
  \<open>row.description || ''\<close>: an absent or empty description gives the empty string.
  \<open>values_of\<close> is the local \<open>values\<close> of the source, \<open>csv_row\<close> the function mapped
  over the results.
\<close>

definition description_or_empty :: "AnalysisResult \<Rightarrow> jsstring" where
  "description_or_empty row =
     (case description row of None \<Rightarrow> [] | Some d \<Rightarrow> (if d = [] then [] else d))"

definition values_of :: "bool \<Rightarrow> AnalysisResult \<Rightarrow> jsstring list" where
  "values_of incl row =
     (if incl then [filename row, title row, description_or_empty row, result_keywords row]
      else [filename row, title row, result_keywords row])"

definition csv_row :: "bool \<Rightarrow> AnalysisResult \<Rightarrow> jsstring" where
  "csv_row incl row = join (js '','') (map (\<lambda>val. js ''\"'' @ val @ js ''\"'') (values_of incl row))"

definition csvContent :: "state \<Rightarrow> jsstring" where
  "csvContent s =
     join [0xA]
       (join (js '','') (headers (includeDescription s))
        # map (csv_row (includeDescription s)) (results s))"

definition exportToCSV :: "state \<Rightarrow> effect list" where
  "exportToCSV s =
     (if length (results s) = 0 then []
      else [Download (js ''image_analysis_results.csv'') (js ''text/csv'') (csvContent s)])"

subsection \<open>Observations and example states\<close>

text \<open>The first line of a text: everything before the first line feed.\<close>

definition first_line :: "jsstring \<Rightarrow> jsstring" where
  "first_line text = takeWhile (\<lambda>c. c \<noteq> 0xA) text"

definition a_jpg :: File where
  "a_jpg = \<lparr>file_name = js ''a.jpg'', file_size = 2097152, file_type = js ''image/jpeg''\<rparr>"

definition b_txt :: File where
  "b_txt = \<lparr>file_name = js ''b.txt'', file_size = 12, file_type = js ''text/plain''\<rparr>"

definition test_browser :: browser where
  "test_browser =
     \<lparr>random_id = (\<lambda>k. js ''id'' @ decimal k),
      createObjectURL = (\<lambda>k. js ''blob:'' @ decimal k)\<rparr>"

definition keyed_state :: state where
  "keyed_state = initial_state\<lparr>apiKey := js ''sk-test''\<rparr>"

definition uploaded_state :: state where
  "uploaded_state = run (onDrop test_browser [a_jpg, b_txt]) keyed_state"

definition blank_key_state :: state where
  "blank_key_state = uploaded_state\<lparr>apiKey := [0x20, 0x9, 0x3000]\<rparr>"

definition analyzed_state :: state where
  "analyzed_state = run (analyzeImages uploaded_state) uploaded_state"

definition toggled_state :: state where
  "toggled_state = run [SetIncludeDescription True] analyzed_state"

definition awkward_result :: AnalysisResult where
  "awkward_result =
     \<lparr>filename = [0x61, 0x22, 0x2C, 0x62], title = js ''t'', description = None,
      result_keywords = js ''k'', status = Completed\<rparr>"

definition awkward_state :: state where
  "awkward_state = initial_state\<lparr>results := [awkward_result]\<rparr>"

subsection \<open>The CSV text in the words of the specification\<close>

text \<open>
  The specification describes the exported text directly: every field value is put
  between two double quotes as it is, the fields of a row are separated by commas, and
  the rows, the header row first, by line feeds. \<open>spec_csv\<close> follows these words; it
  is compared with \<open>csvContent\<close> below.
\<close>

definition quoted :: "jsstring \<Rightarrow> jsstring" where
  "quoted v = [0x22] @ v @ [0x22]"

fun separated :: "code_unit \<Rightarrow> jsstring list \<Rightarrow> jsstring" where
  "separated c [] = []"
| "separated c (x # xs) = x @ concat (map (\<lambda>y. c # y) xs)"

definition spec_csv :: "jsstring list \<Rightarrow> jsstring list list \<Rightarrow> jsstring" where
  "spec_csv hdr rows =
     separated 0xA (separated 0x2C hdr # map (\<lambda>vs. separated 0x2C (map quoted vs)) rows)"

section \<open>Properties\<close>

subsection \<open>Blank keys\<close>

text \<open>A key trims to the empty string exactly when all its code units are white space.\<close>

lemma trim_Nil_iff: "trim k = [] \<longleftrightarrow> list_all is_white_space k"
proof
  assume "trim k = []"
  then have d: "dropWhile is_white_space (rev (dropWhile is_white_space k)) = []"
    by (simp add: trim_def)
  have "dropWhile is_white_space k = []"
  proof (rule ccontr)
    assume ne: "dropWhile is_white_space k \<noteq> []"
    then have "\<not> is_white_space (hd (dropWhile is_white_space k))"
      by (rule hd_dropWhile)
    moreover have "hd (dropWhile is_white_space k) \<in> set (rev (dropWhile is_white_space k))"
      using ne by simp
    ultimately show False
      using d by (auto simp: dropWhile_eq_Nil_conv)
  qed
  then show "list_all is_white_space k"
    by (simp add: dropWhile_eq_Nil_conv list_all_iff)
next
  assume "list_all is_white_space k"
  then show "trim k = []"
    by (auto simp: trim_def dropWhile_eq_Nil_conv list_all_iff dest: set_dropWhileD)
qed

lemma sk_test_not_blank: "\<not> list_all is_white_space (js ''sk-test'')"
  by (simp add: js_def is_white_space_def)

subsection \<open>The collection store\<close>

text \<open>
  C9. Whatever the collection and the result list were, after \<open>clearImages\<close> both are
  empty.
\<close>

theorem clearImages_empties:
  "images (run clearImages s) = [] \<and> results (run clearImages s) = []"
  by (simp add: clearImages_def run_def)

lemma map_image_file_newImages: "map image_file (newImages env batch) = batch"
  by (simp add: newImages_def new_image_def split_def comp_def)

lemma length_newImages: "length (newImages env batch) = length batch"
  by (simp add: newImages_def)

text \<open>
  C8. \<open>onDrop\<close> with a batch of files lengthens the collection by the size of the
  batch. The records that were there keep their places, and the new records follow
  them, one per file, in the order of the batch.
\<close>

theorem onDrop_appends:
  "images (run (onDrop env batch) s) = images s @ newImages env batch
     \<and> length (images (run (onDrop env batch) s)) = length (images s) + length batch
     \<and> take (length (images s)) (images (run (onDrop env batch) s)) = images s
     \<and> map image_file (drop (length (images s)) (images (run (onDrop env batch) s))) = batch"
  by (simp add: onDrop_def run_def length_newImages map_image_file_newImages)

subsection \<open>Rejected starts of the analysis\<close>

text \<open>
  C3. When the API key is empty or consists of white space only, \<open>analyzeImages\<close>
  performs exactly one effect, the alert asking for the key. No setter is called, so the
  result list, the collection, the progress and the processing flag are what they were.
\<close>

theorem analyzeImages_blank_key:
  "list_all is_white_space (apiKey s) \<Longrightarrow>
     analyzeImages s = [Alert missing_key_alert] \<and> run (analyzeImages s) s = s"
  by (simp add: analyzeImages_def trim_Nil_iff run_def)

theorem analyzeImages_blank_key_witness:
  "list_all is_white_space (apiKey blank_key_state)
     \<and> analyzeImages blank_key_state = [Alert missing_key_alert]
     \<and> run (analyzeImages blank_key_state) blank_key_state = blank_key_state"
proof -
  have h: "list_all is_white_space (apiKey blank_key_state)"
    by (simp add: blank_key_state_def is_white_space_def)
  show ?thesis
    using h analyzeImages_blank_key [OF h] by blast
qed

text \<open>
  C4, as the spec states it, fails: with an empty collection and an empty key (the
  initial state of the page) the alert is the one asking for the key, not the one asking
  for images, because the key is checked first.
\<close>

theorem analyzeImages_empty_collection_counterexample:
  "images initial_state = [] \<and> analyzeImages initial_state \<noteq> [Alert no_images_alert]"
  by (simp add: initial_state_def analyzeImages_def trim_def missing_key_alert_def
        no_images_alert_def)

text \<open>
  C4, amended. When the collection is empty, \<open>analyzeImages\<close> performs exactly one
  effect, an alert: the one asking for images when the key is not blank, the one asking
  for the key otherwise. In both cases no effect sets \<open>isProcessing\<close> and the state is
  unchanged.
\<close>

theorem analyzeImages_empty_collection:
  "images s = [] \<Longrightarrow>
     analyzeImages s =
       (if list_all is_white_space (apiKey s) then [Alert missing_key_alert]
        else [Alert no_images_alert])
     \<and> \<not> list_ex sets_isProcessing (analyzeImages s)
     \<and> run (analyzeImages s) s = s"
  by (simp add: analyzeImages_def trim_Nil_iff run_def)

theorem analyzeImages_empty_collection_witness:
  "images keyed_state = []
     \<and> analyzeImages keyed_state = [Alert no_images_alert]
     \<and> \<not> list_ex sets_isProcessing (analyzeImages keyed_state)
     \<and> run (analyzeImages keyed_state) keyed_state = keyed_state"
proof -
  have h: "images keyed_state = []"
    by (simp add: keyed_state_def initial_state_def)
  have k: "\<not> list_all is_white_space (apiKey keyed_state)"
    using sk_test_not_blank by (simp add: keyed_state_def)
  show ?thesis
    using h k analyzeImages_empty_collection [OF h] by (simp add: run_def)
qed

subsection \<open>A completed analysis run\<close>

text \<open>
  The loop from index \<open>i\<close> on adds one progress update and one sleep per remaining image
  to the effects, and one result per remaining image, in order, to \<open>newResults\<close>.
\<close>

lemma analyze_loop_eq:
  "i \<le> length imgs \<Longrightarrow>
   analyze_loop imgs incl i acc =
     (fst acc @ concat (map (\<lambda>j. [SetProgress (Percentage j (length imgs)), Sleep 2000])
                          [i..<length imgs]),
      snd acc @ map (result incl) (drop i imgs))"
proof (induction imgs incl i acc rule: analyze_loop.induct)
  case (1 imgs incl i effs newResults)
  show ?case
  proof (cases "i < length imgs")
    case True
    then have le: "Suc i \<le> length imgs"
      by simp
    have d: "drop i imgs = imgs ! i # drop (Suc i) imgs"
      using True by (simp add: Cons_nth_drop_Suc)
    have u: "[i..<length imgs] = i # [Suc i..<length imgs]"
      using True by (simp add: upt_conv_Cons)
    show ?thesis
      using True "1.IH" [OF True] le by (subst analyze_loop.simps) (simp add: d u)
  next
    case False
    with "1.prems" have "i = length imgs"
      by simp
    then show ?thesis
      by (subst analyze_loop.simps) simp
  qed
qed

lemma analyzeImages_trace:
  assumes "\<not> list_all is_white_space (apiKey s)" and "images s \<noteq> []"
  shows "analyzeImages s =
           [SetIsProcessing True, SetProgress (Integer 0)]
           @ concat (map (\<lambda>j. [SetProgress (Percentage j (length (images s))), Sleep 2000])
                         [0..<length (images s)])
           @ [SetResults (map (result (includeDescription s)) (images s)),
              SetProgress (Integer 100), SetIsProcessing False]"
  using assms by (simp add: analyzeImages_def trim_Nil_iff analyze_loop_eq)

lemma results_run_finish:
  "results (run (effs @ [SetResults rs, SetProgress p, SetIsProcessing b]) s) = rs"
  by (simp add: run_def)

lemma analyzeImages_stores:
  assumes "\<not> list_all is_white_space (apiKey s)" and "images s \<noteq> []"
  shows "results (run (analyzeImages s) s) = map (result (includeDescription s)) (images s)"
proof -
  have "analyzeImages s =
          ([SetIsProcessing True, SetProgress (Integer 0)]
           @ concat (map (\<lambda>j. [SetProgress (Percentage j (length (images s))), Sleep 2000])
                         [0..<length (images s)]))
          @ [SetResults (map (result (includeDescription s)) (images s)),
             SetProgress (Integer 100), SetIsProcessing False]"
    using analyzeImages_trace [OF assms] by simp
  then show ?thesis
    by (simp only: results_run_finish)
qed

lemma description_prefix_nonempty: "description_prefix \<noteq> []"
  by (simp add: description_prefix_def)

lemma uploaded_images:
  "images uploaded_state = [new_image test_browser 0 a_jpg, new_image test_browser 1 b_txt]"
  by (simp add: uploaded_state_def onDrop_def run_def newImages_def keyed_state_def
        initial_state_def)

lemma uploaded_key: "apiKey uploaded_state = js ''sk-test''"
  by (simp add: uploaded_state_def onDrop_def run_def keyed_state_def)

text \<open>
  C1. A run of \<open>analyzeImages\<close> that passes both checks (the key is not blank, the
  collection is not empty) leaves as many results as there are images, in the order of
  the collection, the filename of each being the name of its image. When
  \<open>includeDescription\<close> is on, every result has a description and it is not empty; when
  it is off, no result has one.
\<close>

theorem analyzeImages_results:
  assumes "\<not> list_all is_white_space (apiKey s)" and "images s \<noteq> []"
  shows "length (results (run (analyzeImages s) s)) = length (images s)
     \<and> map filename (results (run (analyzeImages s) s)) = map name (images s)
     \<and> (if includeDescription s
         then list_all (\<lambda>r. description r \<noteq> None \<and> description r \<noteq> Some [])
                (results (run (analyzeImages s) s))
         else list_all (\<lambda>r. description r = None) (results (run (analyzeImages s) s)))"
  by (simp add: analyzeImages_stores [OF assms] result_def description_prefix_nonempty
        list_all_iff)

theorem analyzeImages_results_witness:
  "\<not> list_all is_white_space (apiKey uploaded_state) \<and> images uploaded_state \<noteq> []
     \<and> length (results (run (analyzeImages uploaded_state) uploaded_state)) = 2
     \<and> map filename (results (run (analyzeImages uploaded_state) uploaded_state))
         = [js ''a.jpg'', js ''b.txt'']"
proof -
  have h1: "\<not> list_all is_white_space (apiKey uploaded_state)"
    using sk_test_not_blank by (simp add: uploaded_key)
  have h2: "images uploaded_state \<noteq> []"
    by (simp add: uploaded_images)
  show ?thesis
    using h1 h2 analyzeImages_results [OF h1 h2]
    by (simp add: uploaded_images new_image_def a_jpg_def b_txt_def)
qed

subsection \<open>CSV export\<close>

text \<open>
  C7. With an empty result list \<open>exportToCSV\<close> performs no effect at all: nothing is
  downloaded, nothing is raised, and the state stays as it is.
\<close>

theorem exportToCSV_empty_noop:
  "results s = [] \<Longrightarrow> exportToCSV s = [] \<and> run (exportToCSV s) s = s"
  by (simp add: exportToCSV_def run_def)

theorem exportToCSV_empty_noop_witness:
  "results initial_state = [] \<and> exportToCSV initial_state = []
     \<and> run (exportToCSV initial_state) initial_state = initial_state"
proof -
  have h: "results initial_state = []"
    by (simp add: initial_state_def)
  show ?thesis
    using h exportToCSV_empty_noop [OF h] by blast
qed

subsection \<open>What export writes\<close>

lemma join_separated: "join [c] xs = separated c xs"
  by (induction "[c]" xs rule: join.induct) simp_all

lemma js_comma: "js '','' = [0x2C]"
  by (simp add: js_def)

lemma js_quote: "js ''\"'' = [0x22]"
  by (simp add: js_def)

lemma csvContent_spec:
  "csvContent s =
     spec_csv (headers (includeDescription s)) (map (values_of (includeDescription s)) (results s))"
proof -
  have q: "(\<lambda>val. js ''\"'' @ val @ js ''\"'') = quoted"
    by (simp add: quoted_def js_quote fun_eq_iff)
  show ?thesis
    by (simp add: csvContent_def spec_csv_def csv_row_def js_comma q join_separated comp_def)
qed

text \<open>
  C5. With a non-empty result list \<open>exportToCSV\<close> offers one download, named
  \<open>image_analysis_results.csv\<close>, of type \<open>text/csv\<close>. Its text is the one the
  specification describes: each value between double quotes and otherwise untouched
  (quotes and commas inside a value stay as they are), commas between the fields of a
  row, line feeds between the rows, header row included.
\<close>

theorem exportToCSV_serialization:
  "results s \<noteq> [] \<Longrightarrow>
     exportToCSV s =
       [Download (js ''image_analysis_results.csv'') (js ''text/csv'')
          (spec_csv (headers (includeDescription s))
             (map (values_of (includeDescription s)) (results s)))]"
  by (simp add: exportToCSV_def csvContent_spec)

theorem exportToCSV_serialization_witness:
  "results awkward_state \<noteq> []
     \<and> exportToCSV awkward_state =
         [Download (js ''image_analysis_results.csv'') (js ''text/csv'')
            (js ''filename,title,keywords''
             @ [0xA, 0x22, 0x61, 0x22, 0x2C, 0x62, 0x22, 0x2C, 0x22, 0x74, 0x22, 0x2C,
                0x22, 0x6B, 0x22])]"
proof -
  have r: "results awkward_state \<noteq> []"
    by (simp add: awkward_state_def)
  have "spec_csv (headers (includeDescription awkward_state))
          (map (values_of (includeDescription awkward_state)) (results awkward_state))
        = js ''filename,title,keywords''
          @ [0xA, 0x22, 0x61, 0x22, 0x2C, 0x62, 0x22, 0x2C, 0x22, 0x74, 0x22, 0x2C,
             0x22, 0x6B, 0x22]"
    by (simp add: awkward_state_def initial_state_def awkward_result_def spec_csv_def
          headers_def values_of_def quoted_def js_def)
  then show ?thesis
    using r exportToCSV_serialization [OF r] by simp
qed



subsection \<open>The columns of the export\<close>

lemma first_line_join:
  "0xA \<notin> set h \<Longrightarrow> first_line (join [0xA] (h # rest)) = h"
  by (cases rest) (auto simp: first_line_def takeWhile_tail takeWhile_eq_all_conv)

lemma header_line:
  "first_line (csvContent s) =
     (if includeDescription s then js ''filename,title,descriptors,keywords''
      else js ''filename,title,keywords'')"
proof -
  have "0xA \<notin> set (join (js '','') (headers b))" for b
    by (simp add: headers_def js_def)
  then have "first_line (csvContent s) = join (js '','') (headers (includeDescription s))"
    unfolding csvContent_def by (rule first_line_join)
  then show ?thesis
    by (simp add: headers_def js_def)
qed

text \<open>
  The exported text, written out: the header line, then for each result a line feed and
  its values between double quotes, separated by commas.
\<close>

lemma description_or_empty_eq:
  "description_or_empty row = (case description row of None \<Rightarrow> [] | Some d \<Rightarrow> d)"
  by (simp add: description_or_empty_def split: option.splits)

lemma csvContent_text:
  "csvContent s =
     (if includeDescription s
      then js ''filename,title,descriptors,keywords''
           @ concat (map (\<lambda>row. [0xA] @ quoted (filename row) @ [0x2C] @ quoted (title row)
                                  @ [0x2C]
                                  @ quoted (case description row of None \<Rightarrow> [] | Some d \<Rightarrow> d)
                                  @ [0x2C] @ quoted (result_keywords row))
                         (results s))
      else js ''filename,title,keywords''
           @ concat (map (\<lambda>row. [0xA] @ quoted (filename row) @ [0x2C] @ quoted (title row)
                                  @ [0x2C] @ quoted (result_keywords row))
                         (results s)))"
proof (cases "includeDescription s")
  case True
  have h: "separated 0x2C (headers True) = js ''filename,title,descriptors,keywords''"
    by (simp add: headers_def js_def)
  show ?thesis
    using True
    by (simp add: csvContent_spec spec_csv_def h values_of_def description_or_empty_eq
          comp_def)
next
  case False
  have h: "separated 0x2C (headers False) = js ''filename,title,keywords''"
    by (simp add: headers_def js_def)
  show ?thesis
    using False by (simp add: csvContent_spec spec_csv_def h values_of_def comp_def)
qed

lemma uploaded_flag: "includeDescription uploaded_state = False"
  by (simp add: uploaded_state_def onDrop_def run_def keyed_state_def initial_state_def)

lemma analyzed_results:
  "results analyzed_state = map (result False) (images uploaded_state)"
proof -
  have h1: "\<not> list_all is_white_space (apiKey uploaded_state)"
    using sk_test_not_blank by (simp add: uploaded_key)
  have h2: "images uploaded_state \<noteq> []"
    by (simp add: uploaded_images)
  show ?thesis
    unfolding analyzed_state_def using analyzeImages_stores [OF h1 h2]
    by (simp add: uploaded_flag)
qed

lemma analyzed_flag: "includeDescription analyzed_state = False"
proof -
  have h1: "\<not> list_all is_white_space (apiKey uploaded_state)"
    using sk_test_not_blank by (simp add: uploaded_key)
  have h2: "images uploaded_state \<noteq> []"
    by (simp add: uploaded_images)
  show ?thesis
    unfolding analyzed_state_def analyzeImages_trace [OF h1 h2]
    by (simp add: uploaded_images run_def uploaded_flag)
qed

text \<open>
  C2, as the spec states it, fails. The layout follows the value of
  \<open>includeDescription\<close> at the time of the export, not the value the run had: results
  of a run made with the option off, exported after the option was switched on, get the
  four-column header.
\<close>

theorem exportToCSV_columns_counterexample:
  "includeDescription uploaded_state = False
     \<and> exportToCSV toggled_state =
         [Download (js ''image_analysis_results.csv'') (js ''text/csv'') (csvContent toggled_state)]
     \<and> first_line (csvContent toggled_state) \<noteq> js ''filename,title,keywords''"
proof -
  have r: "results toggled_state \<noteq> []"
    by (simp add: toggled_state_def run_def analyzed_results uploaded_images)
  have f: "includeDescription toggled_state"
    by (simp add: toggled_state_def run_def)
  have "first_line (csvContent toggled_state) = js ''filename,title,descriptors,keywords''"
    using f by (simp add: header_line)
  moreover have "js ''filename,title,descriptors,keywords'' \<noteq> js ''filename,title,keywords''"
    by (simp add: js_def)
  ultimately show ?thesis
    using r by (simp add: uploaded_flag exportToCSV_def)
qed

text \<open>
  C2, amended. For a non-empty result list the layout is fixed by the value of
  \<open>includeDescription\<close> when \<open>exportToCSV\<close> is called. When it is on, the first
  line of the downloaded text is \<open>filename,title,descriptors,keywords\<close> and every
  result contributes one row of four quoted values: its filename, its title, its
  description (the empty string when it has none) under the label \<open>descriptors\<close>, and
  its keywords. When it is off, the first line is \<open>filename,title,keywords\<close> and every
  result contributes one row of three quoted values: filename, title and keywords.
\<close>

theorem exportToCSV_columns:
  "results s \<noteq> [] \<Longrightarrow>
     exportToCSV s =
       [Download (js ''image_analysis_results.csv'') (js ''text/csv'') (csvContent s)]
     \<and> first_line (csvContent s) =
         (if includeDescription s then js ''filename,title,descriptors,keywords''
          else js ''filename,title,keywords'')
     \<and> csvContent s =
         (if includeDescription s
          then js ''filename,title,descriptors,keywords''
               @ concat (map (\<lambda>row. [0xA] @ quoted (filename row) @ [0x2C]
                                      @ quoted (title row) @ [0x2C]
                                      @ quoted (case description row of None \<Rightarrow> []
                                                | Some d \<Rightarrow> d)
                                      @ [0x2C] @ quoted (result_keywords row))
                             (results s))
          else js ''filename,title,keywords''
               @ concat (map (\<lambda>row. [0xA] @ quoted (filename row) @ [0x2C]
                                      @ quoted (title row) @ [0x2C]
                                      @ quoted (result_keywords row))
                             (results s)))
     \<and> list_all (\<lambda>row. length (values_of (includeDescription s) row)
                         = (if includeDescription s then 4 else 3)) (results s)"
proof -
  assume r: "results s \<noteq> []"
  have 1: "exportToCSV s =
       [Download (js ''image_analysis_results.csv'') (js ''text/csv'') (csvContent s)]"
    using r by (simp add: exportToCSV_def)
  have 4: "list_all (\<lambda>row. length (values_of (includeDescription s) row)
                         = (if includeDescription s then 4 else 3)) (results s)"
    by (simp add: values_of_def list_all_iff)
  from 1 header_line [of s] csvContent_text [of s] 4 show ?thesis
    by (intro conjI)
qed

theorem exportToCSV_columns_witness:
  "results analyzed_state \<noteq> []
     \<and> exportToCSV analyzed_state =
         [Download (js ''image_analysis_results.csv'') (js ''text/csv'') (csvContent analyzed_state)]
     \<and> first_line (csvContent analyzed_state) = js ''filename,title,keywords''
     \<and> csvContent analyzed_state =
         js ''filename,title,keywords''
         @ [0xA] @ quoted (js ''a.jpg'') @ [0x2C] @ quoted (title_prefix @ js ''a.jpg'')
         @ [0x2C] @ quoted keywords_text
         @ [0xA] @ quoted (js ''b.txt'') @ [0x2C] @ quoted (title_prefix @ js ''b.txt'')
         @ [0x2C] @ quoted keywords_text
     \<and> list_all (\<lambda>row. length (values_of False row) = 3) (results analyzed_state)"
proof -
  have r: "results analyzed_state \<noteq> []"
    by (simp add: analyzed_results uploaded_images)
  have rs: "results analyzed_state
      = [\<lparr>filename = js ''a.jpg'', title = title_prefix @ js ''a.jpg'', description = None,
           result_keywords = keywords_text, status = Completed\<rparr>,
         \<lparr>filename = js ''b.txt'', title = title_prefix @ js ''b.txt'', description = None,
           result_keywords = keywords_text, status = Completed\<rparr>]"
    by (simp add: analyzed_results uploaded_images result_def new_image_def a_jpg_def
          b_txt_def)
  note t = exportToCSV_columns [OF r, unfolded analyzed_flag if_False]
  have c: "csvContent analyzed_state =
         js ''filename,title,keywords''
         @ [0xA] @ quoted (js ''a.jpg'') @ [0x2C] @ quoted (title_prefix @ js ''a.jpg'')
         @ [0x2C] @ quoted keywords_text
         @ [0xA] @ quoted (js ''b.txt'') @ [0x2C] @ quoted (title_prefix @ js ''b.txt'')
         @ [0x2C] @ quoted keywords_text"
    using t by (simp add: rs)
  show ?thesis
    using r t c by blast
qed

subsection \<open>File intake\<close>

lemma quotient_mebibyte:
  "nat \<lfloor>\<bar>rat_of_nat b / 1024 / 1024\<bar> * 10 ^ 2 + 1 / 2\<rfloor> = (b * 100 + 524288) div 1048576"
proof -
  have "\<bar>rat_of_nat b / 1024 / 1024\<bar> * 10 ^ 2 + 1 / 2
          = rat_of_nat (b * 100 + 524288) / rat_of_nat 1048576"
    by (simp add: field_simps)
  then have "\<lfloor>\<bar>rat_of_nat b / 1024 / 1024\<bar> * 10 ^ 2 + 1 / 2\<rfloor>
          = int ((b * 100 + 524288) div 1048576)"
    by (simp only: floor_divide_of_nat_eq)
  then show ?thesis
    by simp
qed

lemma decimal_small: "n < 10 \<Longrightarrow> decimal n = [digit n]"
  by (subst decimal.simps) simp

lemma decimal_large: "10 \<le> n \<Longrightarrow> decimal n = decimal (n div 10) @ [digit (n mod 10)]"
  by (subst decimal.simps) simp

lemma decimal_nonempty: "decimal n \<noteq> []"
  by (subst decimal.simps) simp

lemma js_zero: "js ''0'' = [digit 0]"
  by (simp add: js_def digit_def)

lemma two_decimals:
  "toFixed (rat_of_nat b / 1024 / 1024) 2 =
     (let n = (b * 100 + 524288) div 1048576
      in decimal (n div 100) @ js ''.'' @ [digit (n div 10 mod 10), digit (n mod 10)])"
proof -
  define n where "n = (b * 100 + 524288) div 1048576"
  define m where "m = decimal n"
  define padded where
    "padded = (if length m \<le> 2 then replicate (2 + 1 - length m) (digit 0) @ m else m)"
  define k where "k = (if length m \<le> 2 then 2 + 1 else length m)"
  have "toFixed (rat_of_nat b / 1024 / 1024) 2
          = take (k - 2) padded @ js ''.'' @ drop (k - 2) padded"
    unfolding toFixed_def Let_def quotient_mebibyte
    by (simp add: js_zero decimal_small n_def m_def padded_def k_def)
  also have "\<dots> = decimal (n div 100) @ js ''.'' @ [digit (n div 10 mod 10), digit (n mod 10)]"
  proof -
    consider "n < 10" | "10 \<le> n" "n < 100" | "100 \<le> n"
      by linarith
    then have "take (k - 2) padded = decimal (n div 100)
        \<and> drop (k - 2) padded = [digit (n div 10 mod 10), digit (n mod 10)]"
    proof cases
      case 1
      then show ?thesis
        by (simp add: padded_def k_def m_def decimal_small numeral_2_eq_2)
    next
      case 2
      then have "decimal n = [digit (n div 10), digit (n mod 10)]"
        by (simp add: decimal_large decimal_small)
      with 2 show ?thesis
        by (simp add: padded_def k_def m_def decimal_small)
    next
      case 3
      then have "10 \<le> n" and "10 \<le> n div 10"
        by simp_all
      moreover have "n div 10 div 10 = n div 100"
        by (simp add: div_mult2_eq [symmetric])
      ultimately have "decimal n
          = decimal (n div 100) @ [digit (n div 10 mod 10), digit (n mod 10)]"
        by (simp add: decimal_large)
      then show ?thesis
        by (simp add: padded_def k_def m_def decimal_nonempty)
    qed
    then show ?thesis
      by simp
  qed
  finally show ?thesis
    unfolding Let_def n_def .
qed

lemma nth_newImages:
  "k < length batch \<Longrightarrow> newImages env batch ! k = new_image env k (batch ! k)"
  by (simp add: newImages_def nth_enumerate_eq)

lemma nearest_hundredth:
  "\<bar>rat_of_nat ((b * 100 + 524288) div 1048576) / 100 - rat_of_nat b / 1024 / 1024\<bar> \<le> 1 / 200"
proof -
  define n where "n = (b * 100 + 524288) div 1048576"
  have "n * 1048576 \<le> b * 100 + 524288"
    unfolding n_def by (rule div_times_less_eq_dividend)
  then have lo: "rat_of_nat n * 1048576 \<le> rat_of_nat b * 100 + 524288"
    by (metis (mono_tags, opaque_lifting) of_nat_add of_nat_le_iff of_nat_mult of_nat_numeral)
  have "b * 100 + 524288 < Suc n * 1048576"
    unfolding n_def using dividend_less_div_times [of 1048576 "b * 100 + 524288"] by simp
  then have "rat_of_nat (b * 100 + 524288) < rat_of_nat (Suc n * 1048576)"
    by (simp only: of_nat_less_iff)
  then have hi: "rat_of_nat b * 100 + 524288 < (rat_of_nat n + 1) * 1048576"
    by simp
  from lo hi show ?thesis
    unfolding n_def [symmetric] by (simp add: abs_le_iff field_simps)
qed

lemma preview_new_image:
  "(preview (new_image env k f) \<noteq> None) = startsWith (file_type f) (js ''image/'')"
  by (simp add: new_image_def)

lemma image_size_new_image:
  "image_size (new_image env k f) =
     (let n = (file_size f * 100 + 524288) div 1048576
      in decimal (n div 100) @ js ''.'' @ [digit (n div 10 mod 10), digit (n mod 10)]
         @ js '' MB'')"
  unfolding new_image_def two_decimals by (simp add: Let_def)

text \<open>
  C6. For a file of the batch (of a size below \<open>2 ^ 53\<close> bytes) the new record has a
  preview exactly when the MIME type of the file starts with \<open>image/\<close>. Its size label
  is the byte size divided by 1024 twice and rounded to the nearest hundredth, printed
  as the integer part, a point and two digits, followed by \<open>MB\<close> after a space. A
  file of 2097152 bytes is labelled \<open>2.00 MB\<close>.
\<close>

theorem onDrop_intake:
  assumes "k < length batch" and "file_size (batch ! k) < 2 ^ 53"
  shows "(preview (images (run (onDrop env batch) s) ! (length (images s) + k)) \<noteq> None)
           = startsWith (file_type (batch ! k)) (js ''image/'')
     \<and> (let n = (file_size (batch ! k) * 100 + 524288) div 1048576
        in image_size (images (run (onDrop env batch) s) ! (length (images s) + k))
             = decimal (n div 100) @ js ''.'' @ [digit (n div 10 mod 10), digit (n mod 10)]
               @ js '' MB''
           \<and> \<bar>rat_of_nat n / 100 - rat_of_nat (file_size (batch ! k)) / 1024 / 1024\<bar> \<le> 1 / 200)"
proof -
  have "images (run (onDrop env batch) s) ! (length (images s) + k)
          = new_image env k (batch ! k)"
    using assms(1) by (simp add: onDrop_def run_def nth_append nth_newImages)
  then show ?thesis
    using nearest_hundredth [of "file_size (batch ! k)"]
    by (simp only: preview_new_image image_size_new_image Let_def simp_thms)
qed

theorem onDrop_intake_witness:
  "(0::nat) < length [a_jpg, b_txt] \<and> file_size ([a_jpg, b_txt] ! 0) < 2 ^ 53
     \<and> (1::nat) < length [a_jpg, b_txt] \<and> file_size ([a_jpg, b_txt] ! 1) < 2 ^ 53
     \<and> preview (images uploaded_state ! 0) \<noteq> None
     \<and> preview (images uploaded_state ! 1) = None
     \<and> image_size (images uploaded_state ! 0) = js ''2.00 MB''"
proof -
  have a0: "(0::nat) < length [a_jpg, b_txt]" and a1: "(1::nat) < length [a_jpg, b_txt]"
    by simp_all
  have s0: "file_size ([a_jpg, b_txt] ! 0) < 2 ^ 53"
    and s1: "file_size ([a_jpg, b_txt] ! 1) < 2 ^ 53"
    by (simp_all add: a_jpg_def b_txt_def)
  have e: "images keyed_state = []"
    by (simp add: keyed_state_def initial_state_def)
  show ?thesis
    using a0 a1 s0 s1
      onDrop_intake [OF a0 s0, of test_browser keyed_state, folded uploaded_state_def]
      onDrop_intake [OF a1 s1, of test_browser keyed_state, folded uploaded_state_def]
    by (simp add: e a_jpg_def b_txt_def startsWith_def js_def decimal_small digit_def)
qed

end
